theory Spec2Isabelle
  imports Main "HOL-Library.AList"
begin

section \<open>Host-side protocol controller of the mobile wallet protocol\<close>

text \<open>
  A shallow embedding of \<^verbatim>\<open>react-native/host/src/provider/MobileWalletProtocolProvider.tsx\<close>.
  The provider keeps three pieces of mutable state: the module-level \<^verbatim>\<open>prevRequestUUID\<close>,
  the module-level \<^verbatim>\<open>actionToResponseMap\<close> and the React state \<^verbatim>\<open>activeMessage\<close>.
  Every callback of the provider becomes a function from the state before the call to an
  outcome and the state after it. A thrown \<^verbatim>\<open>Error\<close> is the left summand of the outcome.
  Calls to the outside world (event sink, delivery, storage, decryption, metadata service)
  are appended to a log that is part of the state, so that "sends nothing" and
  "touches no storage" are statements about that log.

  The callbacks are asynchronous, but each awaits every step before the next one, and the
  controller is driven by one caller at a time: an operation runs to its end before the
  next one starts, and the next one sees the state the previous one left (React has
  re-rendered, so the closures hold the current \<^verbatim>\<open>activeMessage\<close>).
\<close>

subsection \<open>Data model\<close>

text \<open>\<^verbatim>\<open>throw new Error(msg)\<close>, and any failure raised by \<^verbatim>\<open>decryptRequest\<close>.\<close>

datatype error = Error string

text \<open>
  \<^verbatim>\<open>ResultValue\<close> and \<^verbatim>\<open>ErrorValue\<close> are declared in \<^verbatim>\<open>../response/response\<close>; the provider
  only stores and forwards them, so they stay uninterpreted strings here.
  \<^verbatim>\<open>ReturnValue\<close> is what the provider builds: \<^verbatim>\<open>{ result }\<close> or \<^verbatim>\<open>{ error }\<close>.
\<close>

type_synonym ResultValue = string
type_synonym ErrorValue = string

datatype ReturnValue = ReturnResult ResultValue | ReturnError ErrorValue

datatype ActionKind = HandshakeKind | RequestKind

text \<open>
  An action as the provider reads it: \<^verbatim>\<open>action.id\<close>, \<^verbatim>\<open>action.optional\<close>, and for a
  handshake action \<^verbatim>\<open>appId\<close> and \<^verbatim>\<open>callback\<close>. The kind is the tag that
  \<^verbatim>\<open>isHandshakeAction\<close> inspects.
\<close>

record action =
  id_action :: int
  kind :: ActionKind
  optional :: bool
  appId :: string
  callback :: string

text \<open>
  Modelled from the spec: \<^verbatim>\<open>isHandshakeAction\<close> of \<^verbatim>\<open>../action/action\<close> is not part of the
  sources at hand. The data model gives every action a kind, Handshake or Request-action, and
  the design notes describe \<^verbatim>\<open>isHandshakeAction\<close> as the discrimination of that kind.
\<close>

definition isHandshakeAction :: "action \<Rightarrow> bool" where
  "isHandshakeAction a = (kind a = HandshakeKind)"

text \<open>
  What \<^verbatim>\<open>sendError\<close> accepts: both the decoded envelope and the active message are passed
  to it, so both extend one base carrying the request id and the callback.
\<close>

record message_base =
  uuid :: string
  callbackUrl :: string

text \<open>
  The decoded envelope. \<^verbatim>\<open>'handshake' in decoded.content\<close> and
  \<^verbatim>\<open>'request' in decoded.content\<close> are tests for the presence of a key, so each key is
  an optional field; the payloads themselves are opaque to the provider.
\<close>

record decoded_request = message_base +
  handshake :: "string option"
  request :: "string option"

record RequestMessage = message_base +
  actions :: "action list"

record session =
  dappId :: string
  dappName :: string
  dappURL :: string
  createdAt :: int
  keyMaterial :: string

record AppMetadata =
  appId_metadata :: string
  appName :: string

text \<open>\<^verbatim>\<open>emitEvent({ name, params })\<close>: the params object as a list of key/value pairs.\<close>

record event =
  name :: string
  params :: "(string \<times> string) list"

text \<open>The calls the provider makes to its collaborators, in the order it makes them.\<close>

datatype call =
    EmitEvent event
  | SendError string message_base
  | SendResponse "(int \<times> ReturnValue) list" RequestMessage
  | GetSession message_base
  | GetSessions
  | DeleteSessions "session list"
  | AddSession session
  | DecryptRequest string session
  | FetchClientAppMetadata string string
  | IsClientAppVerified string string

text \<open>
  The imported functions whose code is outside this file and whose results the provider
  only branches on or passes along, together with the provider's \<^verbatim>\<open>sessionExpiryDays\<close>
  property. They are parameters of the model: every theorem holds for all of them.
\<close>

record env =
  decodeRequest :: "string \<Rightarrow> decoded_request option"
  mapHandshakeToRequest :: "string \<Rightarrow> decoded_request \<Rightarrow> RequestMessage"
  getSession :: "session list \<Rightarrow> decoded_request \<Rightarrow> session option"
  isSessionValid :: "session \<Rightarrow> int \<Rightarrow> bool"
  decryptRequest :: "string \<Rightarrow> session \<Rightarrow> error + string"
  mapDecryptedContentToRequest :: "string \<Rightarrow> decoded_request \<Rightarrow> RequestMessage"
  createSession :: "AppMetadata \<Rightarrow> action \<Rightarrow> RequestMessage \<Rightarrow> session"
  fetchClientAppMetadata :: "string \<Rightarrow> string \<Rightarrow> AppMetadata option"
  isClientAppVerified :: "string \<Rightarrow> string \<Rightarrow> bool"
  sessionExpiryDays :: int

text \<open>
  The state: the two module-level variables, the React state, the contents of the
  \<^verbatim>\<open>secureStorage\<close> property, and the log of calls. \<^verbatim>\<open>actionToResponseMap\<close> is a
  JavaScript \<^verbatim>\<open>Map\<close>: keys are unique, \<^verbatim>\<open>set\<close> overwrites in place or appends, which is
  \<^const>\<open>AList.update\<close> on an association list.
\<close>

record state =
  prevRequestUUID :: "string option"
  actionToResponseMap :: "(int \<times> ReturnValue) list"
  activeMessage :: "RequestMessage option"
  secureStorage :: "session list"
  calls :: "call list"

subsection \<open>Collaborators with an effect\<close>

text \<open>
  \<^verbatim>\<open>emitEvent\<close>, \<^verbatim>\<open>sendError\<close> and \<^verbatim>\<open>sendResponse\<close> are imported; the provider consumes
  no result of theirs, so all the model keeps of a call is its entry in the log, with the
  arguments the provider passed.
\<close>

definition log :: "call \<Rightarrow> state \<Rightarrow> state" where
  "log c s = s\<lparr>calls := calls s @ [c]\<rparr>"

definition emitEvent :: "event \<Rightarrow> state \<Rightarrow> state" where
  "emitEvent e s = log (EmitEvent e) s"

definition sendError :: "string \<Rightarrow> 'a message_base_scheme \<Rightarrow> state \<Rightarrow> state" where
  "sendError description m s = log (SendError description (message_base.truncate m)) s"

definition sendResponse :: "(int \<times> ReturnValue) list \<Rightarrow> RequestMessage \<Rightarrow> state \<Rightarrow> state" where
  "sendResponse m message s = log (SendResponse m message) s"

text \<open>
  The session store of \<^verbatim>\<open>../sessions/sessions\<close> is not part of the sources at hand. The spec
  gives it three operations, \<^verbatim>\<open>add(session)\<close>, \<^verbatim>\<open>list() -> sequence<Session>\<close> and
  \<^verbatim>\<open>delete(sessions)\<close>, and says that the store itself enforces no uniqueness. So the
  store is a sequence of sessions.
\<close>

text \<open>
  Modelled from the spec: \<^verbatim>\<open>getSessions\<close> is missing from the sources; it is the store's
  \<^verbatim>\<open>list() -> sequence<Session>\<close>, returning every stored session in order.
\<close>

definition getSessions :: "state \<Rightarrow> session list \<times> state" where
  "getSessions s = (secureStorage s, log GetSessions s)"

text \<open>
  Modelled from the spec: \<^verbatim>\<open>deleteSessions\<close> is missing from the sources; it is the
  store's \<^verbatim>\<open>delete(sessions)\<close>, after which none of the given sessions is stored.
\<close>

definition deleteSessions :: "session list \<Rightarrow> state \<Rightarrow> state" where
  "deleteSessions sessions s =
     log (DeleteSessions sessions)
       (s\<lparr>secureStorage := filter (\<lambda>v. v \<notin> set sessions) (secureStorage s)\<rparr>)"

text \<open>
  Modelled from the spec: \<^verbatim>\<open>addSession\<close> is missing from the sources; it is the store's
  \<^verbatim>\<open>add(session)\<close>, which adds the session whatever the store already holds.
\<close>

definition addSession :: "session \<Rightarrow> state \<Rightarrow> state" where
  "addSession session s =
     log (AddSession session) (s\<lparr>secureStorage := secureStorage s @ [session]\<rparr>)"

text \<open>
  Modelled from the spec: \<^verbatim>\<open>shouldRespondToClient\<close> of \<^verbatim>\<open>../response/response\<close> is not part
  of the sources at hand. The spec's aggregator reports completeness iff every action in the
  message's ordered action sequence has a corresponding entry in the response map, whatever
  the entry's value.
\<close>

definition shouldRespondToClient :: "(int \<times> ReturnValue) list \<Rightarrow> RequestMessage \<Rightarrow> bool" where
  "shouldRespondToClient m message =
     list_all (\<lambda>a. map_of m (id_action a) \<noteq> None) (actions message)"

subsection \<open>The provider's callbacks\<close>

definition updateActiveMessage :: "RequestMessage option \<Rightarrow> state \<Rightarrow> state" where
  "updateActiveMessage message s = s\<lparr>actionToResponseMap := [], activeMessage := message\<rparr>"

definition handleRequestUrl :: "env \<Rightarrow> string \<Rightarrow> state \<Rightarrow> (error + bool) \<times> state" where
  "handleRequestUrl E url s =
     (case decodeRequest E url of
        None \<Rightarrow> (Inr False, s)
      | Some decoded \<Rightarrow>
          if prevRequestUUID s = Some (uuid decoded) then (Inr False, s)
          else
            let s1 = s\<lparr>prevRequestUUID := Some (uuid decoded)\<rparr> in
            (case handshake decoded of
               Some h \<Rightarrow>
                 (Inr True, updateActiveMessage (Some (mapHandshakeToRequest E h decoded)) s1)
             | None \<Rightarrow>
                 (case request decoded of
                    None \<Rightarrow> (Inr False, s1)
                  | Some r \<Rightarrow>
                      let s2 = log (GetSession (message_base.truncate decoded)) s1 in
                      (case getSession E (secureStorage s2) decoded of
                         None \<Rightarrow>
                           (Inr False,
                            sendError
                              ''Session not found. Please initiate a handshake request prior to making a request''
                              decoded
                              (emitEvent
                                 \<lparr>name = ''session_not_found'',
                                  params = [(''callbackUrl'', callbackUrl decoded)]\<rparr>
                                 s2))
                       | Some session \<Rightarrow>
                           if \<not> isSessionValid E session (sessionExpiryDays E) then
                             (Inr False,
                              sendError
                                ''Session expired. Please initiate another handshake request to connect.''
                                decoded
                                (deleteSessions [session]
                                   (emitEvent
                                      \<lparr>name = ''session_expired'',
                                       params = [(''appName'', dappName session),
                                                 (''appId'', dappId session),
                                                 (''callbackUrl'', dappURL session)]\<rparr>
                                      s2)))
                           else
                             let s3 = log (DecryptRequest url session) s2 in
                             (case decryptRequest E url session of
                                Inl e \<Rightarrow> (Inl e, s3)
                              | Inr decrypted \<Rightarrow>
                                  (Inr True,
                                   updateActiveMessage
                                     (Some (mapDecryptedContentToRequest E decrypted decoded))
                                     s3))))))"

text \<open>\<^verbatim>\<open>activeMessage?.actions.find(isHandshakeAction)\<close>\<close>

definition activeHandshake :: "state \<Rightarrow> action option" where
  "activeHandshake s =
     (case activeMessage s of
        None \<Rightarrow> None
      | Some message \<Rightarrow> find isHandshakeAction (actions message))"

definition fetchAppMetadata :: "env \<Rightarrow> state \<Rightarrow> (error + AppMetadata option) \<times> state" where
  "fetchAppMetadata E s =
     (case activeHandshake s of
        None \<Rightarrow> (Inl (Error ''No handshake action''), s)
      | Some h \<Rightarrow>
          (Inr (fetchClientAppMetadata E (appId h) (callback h)),
           log (FetchClientAppMetadata (appId h) (callback h)) s))"

definition isAppVerified :: "env \<Rightarrow> state \<Rightarrow> (error + bool) \<times> state" where
  "isAppVerified E s =
     (case activeHandshake s of
        None \<Rightarrow> (Inl (Error ''No handshake action''), s)
      | Some h \<Rightarrow>
          (Inr (isClientAppVerified E (appId h) (callback h)),
           log (IsClientAppVerified (appId h) (callback h)) s))"

definition approveHandshake ::
  "env \<Rightarrow> action \<Rightarrow> AppMetadata \<Rightarrow> state \<Rightarrow> (error + unit) \<times> state" where
  "approveHandshake E action metadata s =
     (case activeMessage s of
        None \<Rightarrow> (Inl (Error ''No message found''), s)
      | Some message \<Rightarrow>
          let session = createSession E metadata action message;
              (sessions, s1) = getSessions s;
              existingSession = find (\<lambda>v. dappId v = appId_metadata metadata) sessions;
              s2 = (case existingSession of
                      None \<Rightarrow> s1
                    | Some existing \<Rightarrow> deleteSessions [existing] s1);
              s3 = addSession session s2
          in if shouldRespondToClient (actionToResponseMap s3) message
             then (Inr (), updateActiveMessage None
                             (sendResponse (actionToResponseMap s3) message s3))
             else (Inr (), s3))"

definition rejectHandshake :: "string \<Rightarrow> state \<Rightarrow> (error + unit) \<times> state" where
  "rejectHandshake description s =
     (case activeMessage s of
        None \<Rightarrow> (Inl (Error ''No message found''), s)
      | Some message \<Rightarrow>
          (Inr (), updateActiveMessage None (sendError description message s)))"

definition approveAction :: "action \<Rightarrow> ResultValue \<Rightarrow> state \<Rightarrow> (error + unit) \<times> state" where
  "approveAction action result s =
     (case activeMessage s of
        None \<Rightarrow> (Inl (Error ''No message found''), s)
      | Some message \<Rightarrow>
          let s1 = s\<lparr>actionToResponseMap :=
                      AList.update (id_action action) (ReturnResult result)
                        (actionToResponseMap s)\<rparr>
          in if shouldRespondToClient (actionToResponseMap s1) message
             then (Inr (), updateActiveMessage None
                             (sendResponse (actionToResponseMap s1) message s1))
             else (Inr (), s1))"

definition rejectAction :: "action \<Rightarrow> ErrorValue \<Rightarrow> state \<Rightarrow> (error + unit) \<times> state" where
  "rejectAction action err s =
     (case activeMessage s of
        None \<Rightarrow> (Inl (Error ''No message found''), s)
      | Some message \<Rightarrow>
          let s1 = s\<lparr>actionToResponseMap :=
                      AList.update (id_action action) (ReturnError err)
                        (actionToResponseMap s)\<rparr>
          in if optional action
             then (if shouldRespondToClient (actionToResponseMap s1) message
                   then (Inr (), updateActiveMessage None
                                   (sendResponse (actionToResponseMap s1) message s1))
                   else (Inr (), s1))
             else (Inr (), sendResponse (actionToResponseMap s1) message s1))"

subsection \<open>The controller as a transition system\<close>

text \<open>
  The operations the provider publishes through its context value, and the state each one
  leaves behind. A run of the controller is a sequence of such operations.
\<close>

datatype operation =
    HandleRequestUrl string
  | FetchAppMetadata
  | IsAppVerified
  | ApproveHandshake action AppMetadata
  | RejectHandshake string
  | ApproveAction action ResultValue
  | RejectAction action ErrorValue

fun perform :: "env \<Rightarrow> operation \<Rightarrow> state \<Rightarrow> state" where
  "perform E (HandleRequestUrl url) s = snd (handleRequestUrl E url s)"
| "perform E FetchAppMetadata s = snd (fetchAppMetadata E s)"
| "perform E IsAppVerified s = snd (isAppVerified E s)"
| "perform E (ApproveHandshake action metadata) s = snd (approveHandshake E action metadata s)"
| "perform E (RejectHandshake description) s = snd (rejectHandshake description s)"
| "perform E (ApproveAction action result) s = snd (approveAction action result s)"
| "perform E (RejectAction action err) s = snd (rejectAction action err s)"

text \<open>
  The response map holds entries only for actions of the active message: with no active
  message it is empty, otherwise every key is the id of one of the message's actions.
\<close>

definition responsesOfActive :: "state \<Rightarrow> bool" where
  "responsesOfActive s =
     (case activeMessage s of
        None \<Rightarrow> actionToResponseMap s = []
      | Some message \<Rightarrow>
          list_all (\<lambda>entry. fst entry \<in> id_action ` set (actions message))
            (actionToResponseMap s))"

text \<open>
  The caller approves or rejects an action of the message that is active; the other
  operations take no action from the caller, or, for \<^verbatim>\<open>approveHandshake\<close>, record nothing.
\<close>

fun actsOnActive :: "operation \<Rightarrow> state \<Rightarrow> bool" where
  "actsOnActive (ApproveAction action result) s =
     (case activeMessage s of None \<Rightarrow> True | Some message \<Rightarrow> action \<in> set (actions message))"
| "actsOnActive (RejectAction action err) s =
     (case activeMessage s of None \<Rightarrow> True | Some message \<Rightarrow> action \<in> set (actions message))"
| "actsOnActive _ s = True"

text \<open>
  A run performs a sequence of operations; it is well directed when every approval or
  rejection in it names an action of the message active at that moment.
\<close>

fun run :: "env \<Rightarrow> operation list \<Rightarrow> state \<Rightarrow> state" where
  "run E [] s = s"
| "run E (op # ops) s = run E ops (perform E op s)"

fun wellDirected :: "env \<Rightarrow> operation list \<Rightarrow> state \<Rightarrow> bool" where
  "wellDirected E [] s = True"
| "wellDirected E (op # ops) s = (actsOnActive op s \<and> wellDirected E ops (perform E op s))"

subsection \<open>Example data\<close>

text \<open>
  A client application, a handshake message and a two-action request message as the
  decoder would produce them, and one possible set of collaborators. Day 10 is "now" for
  the example's expiry check; its window is 7 days.
\<close>

definition exampleA :: action where
  "exampleA = \<lparr>id_action = 0, kind = RequestKind, optional = False, appId = [], callback = []\<rparr>"

definition exampleB :: action where
  "exampleB = \<lparr>id_action = 1, kind = RequestKind, optional = True, appId = [], callback = []\<rparr>"

definition exampleC :: action where
  "exampleC = \<lparr>id_action = 7, kind = RequestKind, optional = False, appId = [], callback = []\<rparr>"

definition exampleH :: action where
  "exampleH = \<lparr>id_action = 0, kind = HandshakeKind, optional = False,
                appId = ''com.example.dapp'', callback = ''https://dapp.example/cb''\<rparr>"

definition exampleRequestMessage :: RequestMessage where
  "exampleRequestMessage =
     \<lparr>uuid = ''req-1'', callbackUrl = ''https://dapp.example/cb'',
      actions = [exampleA, exampleB]\<rparr>"

definition exampleHandshakeMessage :: RequestMessage where
  "exampleHandshakeMessage =
     \<lparr>uuid = ''hs-1'', callbackUrl = ''https://dapp.example/cb'', actions = [exampleH]\<rparr>"

definition exampleMetadata :: AppMetadata where
  "exampleMetadata = \<lparr>appId_metadata = ''com.example.dapp'', appName = ''Example''\<rparr>"

definition exampleSession :: "int \<Rightarrow> session" where
  "exampleSession day =
     \<lparr>dappId = ''com.example.dapp'', dappName = ''Example'',
      dappURL = ''https://dapp.example/cb'', createdAt = day, keyMaterial = ''k0''\<rparr>"

definition exampleEnv :: env where
  "exampleEnv =
     \<lparr>decodeRequest = (\<lambda>url.
        if url = ''mwp://handshake'' then
          Some \<lparr>uuid = ''hs-1'', callbackUrl = ''https://dapp.example/cb'',
                handshake = Some ''hello'', request = None\<rparr>
        else if url = ''mwp://request'' then
          Some \<lparr>uuid = ''req-1'', callbackUrl = ''https://dapp.example/cb'',
                handshake = None, request = Some ''ciphertext''\<rparr>
        else None),
      mapHandshakeToRequest = (\<lambda>h decoded.
        \<lparr>uuid = uuid decoded, callbackUrl = callbackUrl decoded, actions = [exampleH]\<rparr>),
      getSession = (\<lambda>store decoded. find (\<lambda>v. dappURL v = callbackUrl decoded) store),
      isSessionValid = (\<lambda>v days. 10 - createdAt v \<le> days),
      decryptRequest = (\<lambda>url v.
        if keyMaterial v = ''k0'' then Inr ''plaintext'' else Inl (Error ''cannot decrypt'')),
      mapDecryptedContentToRequest = (\<lambda>content decoded.
        \<lparr>uuid = uuid decoded, callbackUrl = callbackUrl decoded,
         actions = [exampleA, exampleB]\<rparr>),
      createSession = (\<lambda>metadata action message.
        \<lparr>dappId = appId action, dappName = appName metadata, dappURL = callback action,
         createdAt = 10, keyMaterial = ''k1''\<rparr>),
      fetchClientAppMetadata = (\<lambda>i u. Some \<lparr>appId_metadata = i, appName = ''Example''\<rparr>),
      isClientAppVerified = (\<lambda>i u. True),
      sessionExpiryDays = 7\<rparr>"

text \<open>The provider right after mounting, with the given sessions in storage.\<close>

definition mounted :: "session list \<Rightarrow> state" where
  "mounted store =
     \<lparr>prevRequestUUID = None, actionToResponseMap = [], activeMessage = None,
      secureStorage = store, calls = []\<rparr>"

text \<open>The provider with a message installed and nothing recorded for it yet.\<close>

definition awaiting :: "RequestMessage \<Rightarrow> state" where
  "awaiting message =
     \<lparr>prevRequestUUID = Some (uuid message), actionToResponseMap = [],
      activeMessage = Some message, secureStorage = [], calls = []\<rparr>"

text \<open>
  The re-handshake scenario: a request arrives while the store is empty and fails, the
  client then sends its handshake, the user approves it, and the client sends the same
  request again. The collaborators are those of the example, with a decryption that
  succeeds under the new session's key.
\<close>

definition renewedEnv :: env where
  "renewedEnv = exampleEnv\<lparr>decryptRequest := (\<lambda>url v. Inr ''plaintext'')\<rparr>"

definition afterFailedRequest :: state where
  "afterFailedRequest = snd (handleRequestUrl renewedEnv ''mwp://request'' (mounted []))"

definition afterRehandshake :: state where
  "afterRehandshake =
     snd (approveHandshake renewedEnv exampleH exampleMetadata
            (snd (handleRequestUrl renewedEnv ''mwp://handshake'' afterFailedRequest)))"

section \<open>Properties\<close>

lemmas effects = log_def emitEvent_def sendError_def sendResponse_def getSessions_def
  deleteSessions_def addSession_def updateActiveMessage_def

lemmas examples = exampleA_def exampleB_def exampleC_def exampleH_def
  exampleRequestMessage_def exampleHandshakeMessage_def exampleMetadata_def
  exampleSession_def mounted_def awaiting_def

subsection \<open>Intake: de-duplication\<close>

text \<open>
  Once an envelope was decoded, the marker holds its id when \<^const>\<open>handleRequestUrl\<close> is
  left, by whichever exit: the duplicate exit leaves the marker as it was (already that id),
  every other exit comes after the assignment, the exit by a decryption failure included.
\<close>

lemma handleRequestUrl_marker:
  "decodeRequest E url = Some d \<Longrightarrow>
   prevRequestUUID (snd (handleRequestUrl E url s)) = Some (uuid d)"
  by (simp add: handleRequestUrl_def effects Let_def split: option.splits sum.splits)

lemma handleRequestUrl_same_id:
  "decodeRequest E url = Some d \<Longrightarrow> prevRequestUUID s = Some (uuid d) \<Longrightarrow>
   handleRequestUrl E url s = (Inr False, s)"
  by (simp add: handleRequestUrl_def)

text \<open>
  C2. If \<^const>\<open>handleRequestUrl\<close> is called twice in immediate succession with requests
  that decode to the same request id, the second call returns false and leaves the whole
  state as the first call left it: the active message and the response map are unchanged,
  and the log of calls is unchanged, so no event is emitted and no response is sent.
\<close>

theorem handleRequestUrl_duplicate_ignored:
  assumes "decodeRequest E url1 = Some d1" and "decodeRequest E url2 = Some d2"
    and "uuid d1 = uuid d2"
  shows "handleRequestUrl E url2 (snd (handleRequestUrl E url1 s))
         = (Inr False, snd (handleRequestUrl E url1 s))"
proof -
  have "prevRequestUUID (snd (handleRequestUrl E url1 s)) = Some (uuid d2)"
    using handleRequestUrl_marker [OF assms(1), of s] assms(3) by simp
  with assms(2) show ?thesis by (rule handleRequestUrl_same_id)
qed

text \<open>
  C2 on the example: a request with a valid session is accepted and installed, and its
  immediate re-delivery changes nothing.
\<close>

theorem handleRequestUrl_duplicate_ignored_witness:
  "decodeRequest exampleEnv ''mwp://request'' =
     Some \<lparr>uuid = ''req-1'', callbackUrl = ''https://dapp.example/cb'',
           handshake = None, request = Some ''ciphertext''\<rparr>
   \<and> fst (handleRequestUrl exampleEnv ''mwp://request'' (mounted [exampleSession 5])) = Inr True
   \<and> handleRequestUrl exampleEnv ''mwp://request''
       (snd (handleRequestUrl exampleEnv ''mwp://request'' (mounted [exampleSession 5])))
     = (Inr False, snd (handleRequestUrl exampleEnv ''mwp://request'' (mounted [exampleSession 5])))"
proof -
  have d: "decodeRequest exampleEnv ''mwp://request'' =
     Some \<lparr>uuid = ''req-1'', callbackUrl = ''https://dapp.example/cb'',
           handshake = None, request = Some ''ciphertext''\<rparr>"
    by (simp add: exampleEnv_def)
  have first: "fst (handleRequestUrl exampleEnv ''mwp://request'' (mounted [exampleSession 5])) = Inr True"
    by (simp add: handleRequestUrl_def exampleEnv_def effects examples)
  from d first handleRequestUrl_duplicate_ignored [OF d d refl, of "mounted [exampleSession 5]"]
  show ?thesis by (simp only: simp_thms)
qed

subsection \<open>Intake: session resolution\<close>

text \<open>
  C4. For an action-request envelope (a \<^verbatim>\<open>request\<close> key and no \<^verbatim>\<open>handshake\<close> key) that
  reaches session resolution, that is, whose id is not the marker's, and whose session is
  found but fails \<^verbatim>\<open>isSessionValid\<close> against \<^verbatim>\<open>sessionExpiryDays\<close>:
  \<^const>\<open>handleRequestUrl\<close> returns false, and after the lookup it makes exactly three calls,
  in this order: one \<^verbatim>\<open>session_expired\<close> event carrying the session's app name, app id and
  URL, one delete of exactly that session, one error delivery for the envelope. There is no
  decryption call. The active message and the response map stay as they were.
\<close>

theorem handleRequestUrl_session_expired:
  assumes "decodeRequest E url = Some decoded"
    and "prevRequestUUID s \<noteq> Some (uuid decoded)"
    and "handshake decoded = None" and "request decoded = Some r"
    and "getSession E (secureStorage s) decoded = Some session"
    and "\<not> isSessionValid E session (sessionExpiryDays E)"
  shows "fst (handleRequestUrl E url s) = Inr False
       \<and> calls (snd (handleRequestUrl E url s)) =
           calls s @
           [GetSession (message_base.truncate decoded),
            EmitEvent \<lparr>name = ''session_expired'',
                       params = [(''appName'', dappName session), (''appId'', dappId session),
                                 (''callbackUrl'', dappURL session)]\<rparr>,
            DeleteSessions [session],
            SendError ''Session expired. Please initiate another handshake request to connect.''
              (message_base.truncate decoded)]
       \<and> activeMessage (snd (handleRequestUrl E url s)) = activeMessage s
       \<and> actionToResponseMap (snd (handleRequestUrl E url s)) = actionToResponseMap s"
  using assms by (simp add: handleRequestUrl_def effects Let_def)

text \<open>C4 on the example: the stored session is ten days old and the window is seven days.\<close>

theorem handleRequestUrl_session_expired_witness:
  "prevRequestUUID (mounted [exampleSession 0]) \<noteq> Some ''req-1''
   \<and> getSession exampleEnv (secureStorage (mounted [exampleSession 0]))
        \<lparr>uuid = ''req-1'', callbackUrl = ''https://dapp.example/cb'',
         handshake = None, request = Some ''ciphertext''\<rparr> = Some (exampleSession 0)
   \<and> \<not> isSessionValid exampleEnv (exampleSession 0) (sessionExpiryDays exampleEnv)
   \<and> fst (handleRequestUrl exampleEnv ''mwp://request'' (mounted [exampleSession 0])) = Inr False
   \<and> calls (snd (handleRequestUrl exampleEnv ''mwp://request'' (mounted [exampleSession 0]))) =
       [GetSession \<lparr>uuid = ''req-1'', callbackUrl = ''https://dapp.example/cb''\<rparr>,
        EmitEvent \<lparr>name = ''session_expired'',
                   params = [(''appName'', ''Example''), (''appId'', ''com.example.dapp''),
                             (''callbackUrl'', ''https://dapp.example/cb'')]\<rparr>,
        DeleteSessions [exampleSession 0],
        SendError ''Session expired. Please initiate another handshake request to connect.''
          \<lparr>uuid = ''req-1'', callbackUrl = ''https://dapp.example/cb''\<rparr>]
   \<and> activeMessage (snd (handleRequestUrl exampleEnv ''mwp://request'' (mounted [exampleSession 0])))
       = None"
proof -
  let ?d = "\<lparr>uuid = ''req-1'', callbackUrl = ''https://dapp.example/cb'',
             handshake = None, request = Some ''ciphertext''\<rparr>"
  have d: "decodeRequest exampleEnv ''mwp://request'' = Some ?d"
    by (simp add: exampleEnv_def)
  have fresh: "prevRequestUUID (mounted [exampleSession 0]) \<noteq> Some (uuid ?d)"
    by (simp add: mounted_def)
  have found: "getSession exampleEnv (secureStorage (mounted [exampleSession 0])) ?d
               = Some (exampleSession 0)"
    by (simp add: exampleEnv_def mounted_def exampleSession_def)
  have expired: "\<not> isSessionValid exampleEnv (exampleSession 0) (sessionExpiryDays exampleEnv)"
    by (simp add: exampleEnv_def exampleSession_def)
  have dedicated: "handshake ?d = None" "request ?d = Some ''ciphertext''"
    by simp_all
  from handleRequestUrl_session_expired [OF d fresh dedicated found expired] fresh found expired
  show ?thesis
    by (simp add: message_base.truncate_def exampleSession_def mounted_def)
qed

text \<open>
  C5. For an action-request envelope that reaches session resolution and for which the
  store has no session: \<^const>\<open>handleRequestUrl\<close> returns false; after the lookup it emits one
  \<^verbatim>\<open>session_not_found\<close> event and delivers one error to the request's callback; apart from
  the marker and the log nothing changes, so the active message and the response map are
  as before and no message is installed.
\<close>

theorem handleRequestUrl_session_not_found:
  assumes "decodeRequest E url = Some decoded"
    and "prevRequestUUID s \<noteq> Some (uuid decoded)"
    and "handshake decoded = None" and "request decoded = Some r"
    and "getSession E (secureStorage s) decoded = None"
  shows "handleRequestUrl E url s =
     (Inr False,
      s\<lparr>prevRequestUUID := Some (uuid decoded),
        calls := calls s @
          [GetSession (message_base.truncate decoded),
           EmitEvent \<lparr>name = ''session_not_found'',
                      params = [(''callbackUrl'', callbackUrl decoded)]\<rparr>,
           SendError ''Session not found. Please initiate a handshake request prior to making a request''
             (message_base.truncate decoded)]\<rparr>)"
  using assms by (simp add: handleRequestUrl_def effects Let_def)

text \<open>C5 on the example: an empty store.\<close>

theorem handleRequestUrl_session_not_found_witness:
  "prevRequestUUID (mounted []) \<noteq> Some ''req-1''
   \<and> getSession exampleEnv (secureStorage (mounted []))
        \<lparr>uuid = ''req-1'', callbackUrl = ''https://dapp.example/cb'',
         handshake = None, request = Some ''ciphertext''\<rparr> = None
   \<and> handleRequestUrl exampleEnv ''mwp://request'' (mounted []) =
       (Inr False,
        \<lparr>prevRequestUUID = Some ''req-1'', actionToResponseMap = [], activeMessage = None,
         secureStorage = [],
         calls =
           [GetSession \<lparr>uuid = ''req-1'', callbackUrl = ''https://dapp.example/cb''\<rparr>,
            EmitEvent \<lparr>name = ''session_not_found'',
                       params = [(''callbackUrl'', ''https://dapp.example/cb'')]\<rparr>,
            SendError ''Session not found. Please initiate a handshake request prior to making a request''
              \<lparr>uuid = ''req-1'', callbackUrl = ''https://dapp.example/cb''\<rparr>]\<rparr>)"
proof -
  let ?d = "\<lparr>uuid = ''req-1'', callbackUrl = ''https://dapp.example/cb'',
             handshake = None, request = Some ''ciphertext''\<rparr>"
  have d: "decodeRequest exampleEnv ''mwp://request'' = Some ?d"
    by (simp add: exampleEnv_def)
  have fresh: "prevRequestUUID (mounted []) \<noteq> Some (uuid ?d)"
    by (simp add: mounted_def)
  have missing: "getSession exampleEnv (secureStorage (mounted [])) ?d = None"
    by (simp add: exampleEnv_def mounted_def)
  have dedicated: "handshake ?d = None" "request ?d = Some ''ciphertext''"
    by simp_all
  from handleRequestUrl_session_not_found [OF d fresh dedicated missing] fresh missing
  show ?thesis
    by (simp add: message_base.truncate_def mounted_def)
qed

text \<open>
  C10 as stated fails on the retry it names. The marker is assigned for every decoded
  envelope, a handshake included. In the re-handshake scenario the request fails for want
  of a session and the marker holds the request's id; once the handshake has been taken in,
  the marker holds the handshake's id. The same request, sent again after the approval, is
  therefore not a duplicate: its session is looked up and found, the payload is decrypted,
  the call returns true and the request's message becomes the active one.
\<close>

theorem retry_after_rehandshake_is_processed:
  "fst (handleRequestUrl renewedEnv ''mwp://request'' (mounted [])) = Inr False
   \<and> prevRequestUUID afterFailedRequest = Some ''req-1''
   \<and> prevRequestUUID afterRehandshake = Some ''hs-1''
   \<and> fst (handleRequestUrl renewedEnv ''mwp://request'' afterRehandshake) = Inr True
   \<and> activeMessage (snd (handleRequestUrl renewedEnv ''mwp://request'' afterRehandshake))
       = Some exampleRequestMessage
   \<and> calls (snd (handleRequestUrl renewedEnv ''mwp://request'' afterRehandshake)) =
       calls afterRehandshake @
       [GetSession \<lparr>uuid = ''req-1'', callbackUrl = ''https://dapp.example/cb''\<rparr>,
        DecryptRequest ''mwp://request''
          \<lparr>dappId = ''com.example.dapp'', dappName = ''Example'',
           dappURL = ''https://dapp.example/cb'', createdAt = 10, keyMaterial = ''k1''\<rparr>]"
  by (simp add: afterRehandshake_def afterFailedRequest_def renewedEnv_def exampleEnv_def
      handleRequestUrl_def approveHandshake_def shouldRespondToClient_def effects examples
      Let_def message_base.truncate_def)

text \<open>
  C10, amended. The marker is assigned before the session is looked up and no exit restores
  it. So when an action-request fails because its session is missing or expired, the call
  returns false with the marker holding the request's id, and submitting the same request
  again before any other request is taken in returns false and leaves the whole state
  untouched: no error response, no event, no change of the active message.
\<close>

theorem failed_request_not_reprocessed:
  assumes "decodeRequest E url = Some decoded"
    and "prevRequestUUID s \<noteq> Some (uuid decoded)"
    and "handshake decoded = None" and "request decoded = Some r"
    and "getSession E (secureStorage s) decoded = None \<or>
         (\<exists>session. getSession E (secureStorage s) decoded = Some session \<and>
                    \<not> isSessionValid E session (sessionExpiryDays E))"
  shows "fst (handleRequestUrl E url s) = Inr False \<and>
         prevRequestUUID (snd (handleRequestUrl E url s)) = Some (uuid decoded) \<and>
         handleRequestUrl E url (snd (handleRequestUrl E url s)) =
           (Inr False, snd (handleRequestUrl E url s))"
proof -
  have first: "fst (handleRequestUrl E url s) = Inr False"
    and marker: "prevRequestUUID (snd (handleRequestUrl E url s)) = Some (uuid decoded)"
    using assms by (auto simp: handleRequestUrl_def effects Let_def)
  from handleRequestUrl_same_id [OF assms(1) marker] first marker show ?thesis
    by (simp only: simp_thms)
qed

text \<open>C10 on the example: the request fails for want of a session, the retry is dropped.\<close>

theorem failed_request_not_reprocessed_witness:
  "getSession exampleEnv (secureStorage (mounted []))
        \<lparr>uuid = ''req-1'', callbackUrl = ''https://dapp.example/cb'',
         handshake = None, request = Some ''ciphertext''\<rparr> = None
   \<and> fst (handleRequestUrl exampleEnv ''mwp://request'' (mounted [])) = Inr False
   \<and> prevRequestUUID (snd (handleRequestUrl exampleEnv ''mwp://request'' (mounted [])))
       = Some ''req-1''
   \<and> handleRequestUrl exampleEnv ''mwp://request''
        (snd (handleRequestUrl exampleEnv ''mwp://request'' (mounted []))) =
       (Inr False, snd (handleRequestUrl exampleEnv ''mwp://request'' (mounted [])))"
proof -
  let ?d = "\<lparr>uuid = ''req-1'', callbackUrl = ''https://dapp.example/cb'',
             handshake = None, request = Some ''ciphertext''\<rparr>"
  have d: "decodeRequest exampleEnv ''mwp://request'' = Some ?d"
    by (simp add: exampleEnv_def)
  have fresh: "prevRequestUUID (mounted []) \<noteq> Some (uuid ?d)"
    by (simp add: mounted_def)
  have missing: "getSession exampleEnv (secureStorage (mounted [])) ?d = None"
    by (simp add: exampleEnv_def mounted_def)
  have dedicated: "handshake ?d = None" "request ?d = Some ''ciphertext''"
    by simp_all
  from failed_request_not_reprocessed [OF d fresh dedicated disjI1 [OF missing]] missing
  show ?thesis by simp
qed

subsection \<open>Calls without an active message\<close>

text \<open>
  C9. With no active message, \<^const>\<open>approveHandshake\<close>, \<^const>\<open>rejectHandshake\<close>,
  \<^const>\<open>approveAction\<close> and \<^const>\<open>rejectAction\<close> each throw \<^verbatim>\<open>No message found\<close>; with no
  active message that has a handshake action, \<^const>\<open>fetchAppMetadata\<close> and
  \<^const>\<open>isAppVerified\<close> each throw \<^verbatim>\<open>No handshake action\<close>. In every case the state after
  the call is the state before it, log included: nothing is mutated, delivered or read from
  storage.
\<close>

theorem invalid_state_signalled:
  "(activeMessage s = None \<longrightarrow>
      approveHandshake E h metadata s = (Inl (Error ''No message found''), s) \<and>
      rejectHandshake description s = (Inl (Error ''No message found''), s) \<and>
      approveAction action result s = (Inl (Error ''No message found''), s) \<and>
      rejectAction action err s = (Inl (Error ''No message found''), s)) \<and>
   ((case activeMessage s of
       None \<Rightarrow> True
     | Some message \<Rightarrow> \<forall>a \<in> set (actions message). \<not> isHandshakeAction a) \<longrightarrow>
      fetchAppMetadata E s = (Inl (Error ''No handshake action''), s) \<and>
      isAppVerified E s = (Inl (Error ''No handshake action''), s))"
proof -
  have "activeHandshake s = None"
    if "case activeMessage s of None \<Rightarrow> True
        | Some message \<Rightarrow> \<forall>a \<in> set (actions message). \<not> isHandshakeAction a"
    using that by (auto simp: activeHandshake_def find_None_iff split: option.splits)
  then show ?thesis
    by (simp add: approveHandshake_def rejectHandshake_def approveAction_def
        rejectAction_def fetchAppMetadata_def isAppVerified_def)
qed

text \<open>
  C9 on the example: the freshly mounted provider has no message, and a request message
  has no handshake action.
\<close>

theorem invalid_state_signalled_witness:
  "activeMessage (mounted []) = None
   \<and> approveHandshake exampleEnv exampleH exampleMetadata (mounted [])
       = (Inl (Error ''No message found''), mounted [])
   \<and> rejectHandshake ''no'' (mounted []) = (Inl (Error ''No message found''), mounted [])
   \<and> approveAction exampleA ''ok'' (mounted []) = (Inl (Error ''No message found''), mounted [])
   \<and> rejectAction exampleA ''denied'' (mounted []) = (Inl (Error ''No message found''), mounted [])
   \<and> fetchAppMetadata exampleEnv (mounted []) = (Inl (Error ''No handshake action''), mounted [])
   \<and> isAppVerified exampleEnv (mounted []) = (Inl (Error ''No handshake action''), mounted [])
   \<and> activeMessage (awaiting exampleRequestMessage) = Some exampleRequestMessage
   \<and> fetchAppMetadata exampleEnv (awaiting exampleRequestMessage)
       = (Inl (Error ''No handshake action''), awaiting exampleRequestMessage)
   \<and> isAppVerified exampleEnv (awaiting exampleRequestMessage)
       = (Inl (Error ''No handshake action''), awaiting exampleRequestMessage)"
proof -
  have none: "activeMessage (mounted []) = None"
    by (simp add: mounted_def)
  have request: "activeMessage (awaiting exampleRequestMessage) = Some exampleRequestMessage"
    by (simp add: awaiting_def)
  have plain: "\<forall>a \<in> set (actions exampleRequestMessage). \<not> isHandshakeAction a"
    by (simp add: exampleRequestMessage_def exampleA_def exampleB_def isHandshakeAction_def)
  from none request plain
    invalid_state_signalled
      [of "mounted []" exampleEnv exampleH exampleMetadata "''no''" exampleA "''ok''" "''denied''"]
    invalid_state_signalled [of "awaiting exampleRequestMessage" exampleEnv]
  show ?thesis by simp
qed

subsection \<open>Aggregation: approving and rejecting actions\<close>

lemma shouldRespondToClient_iff:
  "shouldRespondToClient m message \<longleftrightarrow>
   (\<forall>a \<in> set (actions message). id_action a \<in> fst ` set m)"
  by (simp add: shouldRespondToClient_def list_all_iff map_of_eq_None_iff)

text \<open>
  C7. With a message active, \<^const>\<open>approveAction\<close> returns normally, and the map after
  recording holds the success outcome under the action's id. If that map has an entry for
  every action of the message, whatever the entries are, the call sends it as the response,
  empties the map and clears the active message; if some action has no entry, the call sends
  nothing and leaves the message active with the new map. Hence sending and clearing happen
  if and only if the coverage is full.
\<close>

theorem approveAction_records_then_completes:
  assumes "activeMessage s = Some message"
  shows "let m' = AList.update (id_action action) (ReturnResult result) (actionToResponseMap s);
             covered = (\<forall>a \<in> set (actions message). id_action a \<in> fst ` set m')
         in map_of m' (id_action action) = Some (ReturnResult result) \<and>
            approveAction action result s =
              (Inr (),
               if covered
               then s\<lparr>actionToResponseMap := [], activeMessage := None,
                      calls := calls s @ [SendResponse m' message]\<rparr>
               else s\<lparr>actionToResponseMap := m'\<rparr>) \<and>
            (activeMessage (snd (approveAction action result s)) = None \<longleftrightarrow> covered) \<and>
            (calls (snd (approveAction action result s)) = calls s @ [SendResponse m' message]
               \<longleftrightarrow> covered)"
  using assms
  by (simp add: approveAction_def Let_def effects shouldRespondToClient_iff update_conv')

text \<open>
  C7 on the example: approving the first of two actions records and waits; approving the
  second one afterwards completes the message.
\<close>

theorem approveAction_records_then_completes_witness:
  "activeMessage (awaiting exampleRequestMessage) = Some exampleRequestMessage
   \<and> approveAction exampleA ''ok'' (awaiting exampleRequestMessage) =
       (Inr (), (awaiting exampleRequestMessage)\<lparr>actionToResponseMap := [(0, ReturnResult ''ok'')]\<rparr>)
   \<and> approveAction exampleB ''fine''
        ((awaiting exampleRequestMessage)\<lparr>actionToResponseMap := [(0, ReturnResult ''ok'')]\<rparr>) =
       (Inr (),
        (awaiting exampleRequestMessage)
          \<lparr>activeMessage := None,
           calls := [SendResponse [(0, ReturnResult ''ok''), (1, ReturnResult ''fine'')]
                       exampleRequestMessage]\<rparr>)"
proof -
  let ?s1 = "(awaiting exampleRequestMessage)\<lparr>actionToResponseMap := [(0, ReturnResult ''ok'')]\<rparr>"
  have a0: "activeMessage (awaiting exampleRequestMessage) = Some exampleRequestMessage"
    by (simp add: awaiting_def)
  have a1: "activeMessage ?s1 = Some exampleRequestMessage"
    by (simp add: awaiting_def)
  from a0 approveAction_records_then_completes [OF a0, of exampleA "''ok''"]
    approveAction_records_then_completes [OF a1, of exampleB "''fine''"]
  show ?thesis
    by (simp add: Let_def examples)
qed

text \<open>
  With a message active, rejecting an action that is not optional records the failure and
  sends the map as it stands; the state after the call still has the message active and
  still holds the recorded entries.
\<close>

lemma rejectAction_mandatory:
  assumes "activeMessage s = Some message" and "\<not> optional action"
  shows "rejectAction action err s =
     (Inr (),
      s\<lparr>actionToResponseMap :=
           AList.update (id_action action) (ReturnError err) (actionToResponseMap s),
        calls := calls s @
           [SendResponse
              (AList.update (id_action action) (ReturnError err) (actionToResponseMap s))
              message]\<rparr>)"
  using assms by (simp add: rejectAction_def effects Let_def)

text \<open>
  C1, evaluated on the message \<^verbatim>\<open>[A(optional=false), B(optional=true)]\<close>. Rejecting A
  before B is resolved sends the response with only A's error, as the claim says. But the
  message is still active afterwards and A's entry is still in the map, so the later
  approval of B is not refused with \<^verbatim>\<open>No message found\<close>: it records B's result, finds the
  coverage full and sends a second response for the same message.
\<close>

theorem rejectAction_mandatory_keeps_message:
  "rejectAction exampleA ''denied'' (awaiting exampleRequestMessage) =
     (Inr (),
      (awaiting exampleRequestMessage)
        \<lparr>actionToResponseMap := [(0, ReturnError ''denied'')],
         calls := [SendResponse [(0, ReturnError ''denied'')] exampleRequestMessage]\<rparr>)
   \<and> activeMessage (snd (rejectAction exampleA ''denied'' (awaiting exampleRequestMessage)))
       = Some exampleRequestMessage
   \<and> approveAction exampleB ''ok''
       (snd (rejectAction exampleA ''denied'' (awaiting exampleRequestMessage))) =
     (Inr (),
      (awaiting exampleRequestMessage)
        \<lparr>activeMessage := None,
         calls := [SendResponse [(0, ReturnError ''denied'')] exampleRequestMessage,
                   SendResponse [(0, ReturnError ''denied''), (1, ReturnResult ''ok'')]
                     exampleRequestMessage]\<rparr>)"
  by (simp add: rejectAction_def approveAction_def shouldRespondToClient_def effects examples)

subsection \<open>Handshake approval\<close>

text \<open>
  \<^const>\<open>approveHandshake\<close> never writes to the response map: it is emptied when the call
  sends the response, and otherwise it is what it was.
\<close>

lemma approveHandshake_map:
  "actionToResponseMap (snd (approveHandshake E action metadata s)) = actionToResponseMap s \<or>
   actionToResponseMap (snd (approveHandshake E action metadata s)) = []"
  by (simp add: approveHandshake_def effects Let_def split: option.splits)




text \<open>The store after an approval: the first session found for the app id is gone, the new one is last.\<close>

lemma filter_at_most_one:
  assumes "length (filter P xs) \<le> 1" and "find P xs = Some x"
  shows "filter (\<lambda>v. v \<noteq> x) xs = filter (\<lambda>v. \<not> P v) xs"
proof -
  from assms(2) have x: "x \<in> set xs" "P x"
    by (auto simp: find_Some_iff)
  then have "x \<in> set (filter P xs)" by simp
  with assms(1) have "filter P xs = [x]"
    by (cases "filter P xs") auto
  then have "set (filter P xs) = {x}" by simp
  then have uniq: "v = x" if "v \<in> set xs" "P v" for v
    using that by auto
  have "(v \<noteq> x) = (\<not> P v)" if "v \<in> set xs" for v
    using that x(2) uniq by blast
  then show ?thesis
    by (rule filter_cong [OF refl])
qed

lemma approveHandshake_storage:
  assumes "activeMessage s = Some message"
  shows "secureStorage (snd (approveHandshake E action metadata s)) =
           (case find (\<lambda>v. dappId v = appId_metadata metadata) (secureStorage s) of
              None \<Rightarrow> secureStorage s
            | Some existing \<Rightarrow> filter (\<lambda>v. v \<noteq> existing) (secureStorage s))
           @ [createSession E metadata action message]"
  using assms by (simp add: approveHandshake_def Let_def effects split: option.splits)

lemma replace_session:
  assumes "length (filter (\<lambda>v. dappId v = X) store) \<le> 1"
  shows "(case find (\<lambda>v. dappId v = X) store of
            None \<Rightarrow> store
          | Some existing \<Rightarrow> filter (\<lambda>v. v \<noteq> existing) store)
         = filter (\<lambda>v. dappId v \<noteq> X) store"
proof (cases "find (\<lambda>v. dappId v = X) store")
  case None
  then have "filter (\<lambda>v. dappId v \<noteq> X) store = store"
    by (simp add: find_None_iff)
  with None show ?thesis by simp
next
  case (Some existing)
  with assms filter_at_most_one [of "\<lambda>v. dappId v = X" store existing]
  show ?thesis by simp
qed

text \<open>The order of the storage calls: list, delete the session found (if any), then add.\<close>

lemma approveHandshake_calls:
  assumes "activeMessage s = Some message"
  shows "\<exists>rest. calls (snd (approveHandshake E action metadata s)) =
           calls s @ GetSessions #
           (case find (\<lambda>v. dappId v = appId_metadata metadata) (secureStorage s) of
              None \<Rightarrow> []
            | Some existing \<Rightarrow> [DeleteSessions [existing]])
           @ AddSession (createSession E metadata action message) # rest"
  using assms by (simp add: approveHandshake_def Let_def effects split: option.splits)

lemma approveHandshake_replaces:
  assumes "activeMessage s = Some message"
    and "appId_metadata metadata = X"
    and "length (filter (\<lambda>v. dappId v = X) (secureStorage s)) \<le> 1"
  shows "secureStorage (snd (approveHandshake E action metadata s)) =
           filter (\<lambda>v. dappId v \<noteq> X) (secureStorage s) @ [createSession E metadata action message]"
  unfolding approveHandshake_storage [OF assms(1)] assms(2) replace_session [OF assms(3)] ..

text \<open>
  C6. Let \<^verbatim>\<open>approveHandshake\<close> be called for app identity \<open>X\<close>: the metadata's app id is
  \<open>X\<close> and the session that \<^verbatim>\<open>createSession\<close> builds is for \<open>X\<close>. If the store holds at
  most one session for \<open>X\<close> before the call, then after it the store holds the other apps'
  sessions as before, followed by the new session, and the sessions for \<open>X\<close> are exactly
  the new one.
\<close>

theorem approveHandshake_one_session_per_app:
  assumes "activeMessage s = Some message"
    and "appId_metadata metadata = X"
    and "dappId (createSession E metadata action message) = X"
    and "length (filter (\<lambda>v. dappId v = X) (secureStorage s)) \<le> 1"
  shows "secureStorage (snd (approveHandshake E action metadata s)) =
           filter (\<lambda>v. dappId v \<noteq> X) (secureStorage s) @ [createSession E metadata action message]
         \<and> filter (\<lambda>v. dappId v = X) (secureStorage (snd (approveHandshake E action metadata s))) =
           [createSession E metadata action message]"
proof -
  have "filter (\<lambda>v. dappId v = X)
      (filter (\<lambda>v. dappId v \<noteq> X) (secureStorage s) @ [createSession E metadata action message])
      = [createSession E metadata action message]"
    by (simp add: assms(3))
  with approveHandshake_replaces [OF assms(1,2,4), of E action] show ?thesis
    by (simp only: simp_thms)
qed

text \<open>
  C6 on the example: the store holds an old session of the application; after the
  approval it holds only the new one.
\<close>

theorem approveHandshake_one_session_per_app_witness:
  "activeMessage ((awaiting exampleHandshakeMessage)\<lparr>secureStorage := [exampleSession 0]\<rparr>)
     = Some exampleHandshakeMessage
   \<and> length (filter (\<lambda>v. dappId v = ''com.example.dapp'')
        (secureStorage ((awaiting exampleHandshakeMessage)\<lparr>secureStorage := [exampleSession 0]\<rparr>))) \<le> 1
   \<and> secureStorage (snd (approveHandshake exampleEnv exampleH exampleMetadata
        ((awaiting exampleHandshakeMessage)\<lparr>secureStorage := [exampleSession 0]\<rparr>))) =
       [\<lparr>dappId = ''com.example.dapp'', dappName = ''Example'',
         dappURL = ''https://dapp.example/cb'', createdAt = 10, keyMaterial = ''k1''\<rparr>]"
proof -
  let ?s = "(awaiting exampleHandshakeMessage)\<lparr>secureStorage := [exampleSession 0]\<rparr>"
  have active: "activeMessage ?s = Some exampleHandshakeMessage"
    by (simp add: awaiting_def)
  have app: "appId_metadata exampleMetadata = ''com.example.dapp''"
    by (simp add: exampleMetadata_def)
  have new: "dappId (createSession exampleEnv exampleMetadata exampleH exampleHandshakeMessage)
             = ''com.example.dapp''"
    by (simp add: exampleEnv_def exampleH_def)
  have one: "length (filter (\<lambda>v. dappId v = ''com.example.dapp'') (secureStorage ?s)) \<le> 1"
    by (simp add: awaiting_def exampleSession_def)
  from approveHandshake_one_session_per_app [OF active app new one] active one
  show ?thesis
    by (simp add: exampleEnv_def examples)
qed

text \<open>
  Two successive approvals for \<open>X\<close>, with anything in between that leaves the store as
  the first approval left it: the only session for \<open>X\<close> is the one of the second approval.
\<close>

lemma approveHandshake_twice:
  assumes "activeMessage s = Some message1"
    and "appId_metadata metadata1 = X"
    and "dappId (createSession E metadata1 action1 message1) = X"
    and "length (filter (\<lambda>v. dappId v = X) (secureStorage s)) \<le> 1"
    and "secureStorage s' = secureStorage (snd (approveHandshake E action1 metadata1 s))"
    and "activeMessage s' = Some message2"
    and "appId_metadata metadata2 = X"
    and "dappId (createSession E metadata2 action2 message2) = X"
  shows "filter (\<lambda>v. dappId v = X) (secureStorage (snd (approveHandshake E action2 metadata2 s'))) =
           [createSession E metadata2 action2 message2]"
proof -
  have "secureStorage s' =
          filter (\<lambda>v. dappId v \<noteq> X) (secureStorage s) @ [createSession E metadata1 action1 message1]"
    unfolding assms(5) by (rule approveHandshake_replaces [OF assms(1,2,4)])
  then have "length (filter (\<lambda>v. dappId v = X) (secureStorage s')) \<le> 1"
    by (simp add: assms(3))
  then have "secureStorage (snd (approveHandshake E action2 metadata2 s')) =
          filter (\<lambda>v. dappId v \<noteq> X) (secureStorage s') @ [createSession E metadata2 action2 message2]"
    by (rule approveHandshake_replaces [OF assms(6,7)])
  then show ?thesis
    by (simp add: assms(8))
qed

subsection \<open>The response map belongs to the active message\<close>

lemma update_keys_within:
  "list_all (\<lambda>entry. fst entry \<in> K) m \<Longrightarrow> k \<in> K \<Longrightarrow>
   list_all (\<lambda>entry. fst entry \<in> K) (AList.update k v m)"
  by (induction m) auto

lemma handleRequestUrl_scoped:
  "responsesOfActive s \<Longrightarrow> responsesOfActive (snd (handleRequestUrl E url s))"
  by (auto simp: handleRequestUrl_def responsesOfActive_def effects Let_def
      split: option.splits sum.splits)

lemma handleRequestUrl_clears:
  "activeMessage (snd (handleRequestUrl E url s)) \<noteq> activeMessage s \<Longrightarrow>
   actionToResponseMap (snd (handleRequestUrl E url s)) = []"
  by (auto simp: handleRequestUrl_def effects Let_def split: option.splits sum.splits if_splits)

lemma fetchAppMetadata_scoped:
  "responsesOfActive s \<Longrightarrow> responsesOfActive (snd (fetchAppMetadata E s))"
  by (simp add: fetchAppMetadata_def responsesOfActive_def effects split: option.splits)

lemma fetchAppMetadata_clears:
  "activeMessage (snd (fetchAppMetadata E s)) \<noteq> activeMessage s \<Longrightarrow>
   actionToResponseMap (snd (fetchAppMetadata E s)) = []"
  by (simp add: fetchAppMetadata_def effects split: option.splits)

lemma isAppVerified_scoped:
  "responsesOfActive s \<Longrightarrow> responsesOfActive (snd (isAppVerified E s))"
  by (simp add: isAppVerified_def responsesOfActive_def effects split: option.splits)

lemma isAppVerified_clears:
  "activeMessage (snd (isAppVerified E s)) \<noteq> activeMessage s \<Longrightarrow>
   actionToResponseMap (snd (isAppVerified E s)) = []"
  by (simp add: isAppVerified_def effects split: option.splits)

lemma approveHandshake_scoped:
  "responsesOfActive s \<Longrightarrow> responsesOfActive (snd (approveHandshake E action metadata s))"
  by (auto simp: approveHandshake_def responsesOfActive_def effects Let_def split: option.splits)

lemma approveHandshake_clears:
  "activeMessage (snd (approveHandshake E action metadata s)) \<noteq> activeMessage s \<Longrightarrow>
   actionToResponseMap (snd (approveHandshake E action metadata s)) = []"
  by (auto simp: approveHandshake_def effects Let_def split: option.splits if_splits)

lemma rejectHandshake_scoped:
  "responsesOfActive s \<Longrightarrow> responsesOfActive (snd (rejectHandshake description s))"
  by (auto simp: rejectHandshake_def responsesOfActive_def effects split: option.splits)

lemma rejectHandshake_clears:
  "activeMessage (snd (rejectHandshake description s)) \<noteq> activeMessage s \<Longrightarrow>
   actionToResponseMap (snd (rejectHandshake description s)) = []"
  by (auto simp: rejectHandshake_def effects split: option.splits)

lemma approveAction_scoped:
  "responsesOfActive s \<Longrightarrow> actsOnActive (ApproveAction action result) s \<Longrightarrow>
   responsesOfActive (snd (approveAction action result s))"
  by (auto simp: approveAction_def responsesOfActive_def effects Let_def update_keys_within
      split: option.splits)

lemma approveAction_clears:
  "activeMessage (snd (approveAction action result s)) \<noteq> activeMessage s \<Longrightarrow>
   actionToResponseMap (snd (approveAction action result s)) = []"
  by (auto simp: approveAction_def effects Let_def split: option.splits if_splits)

lemma rejectAction_scoped:
  "responsesOfActive s \<Longrightarrow> actsOnActive (RejectAction action err) s \<Longrightarrow>
   responsesOfActive (snd (rejectAction action err s))"
  by (auto simp: rejectAction_def responsesOfActive_def effects Let_def update_keys_within
      split: option.splits)

lemma rejectAction_clears:
  "activeMessage (snd (rejectAction action err s)) \<noteq> activeMessage s \<Longrightarrow>
   actionToResponseMap (snd (rejectAction action err s)) = []"
  by (auto simp: rejectAction_def effects Let_def split: option.splits if_splits)

lemma perform_scoped:
  assumes "responsesOfActive s" and "actsOnActive op s"
  shows "responsesOfActive (perform E op s)"
proof (cases op)
  case (HandleRequestUrl url)
  with assms(1) show ?thesis by (simp add: handleRequestUrl_scoped)
next
  case FetchAppMetadata
  with assms(1) show ?thesis by (simp add: fetchAppMetadata_scoped)
next
  case IsAppVerified
  with assms(1) show ?thesis by (simp add: isAppVerified_scoped)
next
  case (ApproveHandshake action metadata)
  with assms(1) show ?thesis by (simp add: approveHandshake_scoped)
next
  case (RejectHandshake description)
  with assms(1) show ?thesis by (simp add: rejectHandshake_scoped)
next
  case (ApproveAction action result)
  with assms approveAction_scoped [of s action result] show ?thesis by simp
next
  case (RejectAction action err)
  with assms rejectAction_scoped [of s action err] show ?thesis by simp
qed

lemma perform_clears:
  "activeMessage (perform E op s) \<noteq> activeMessage s \<Longrightarrow> actionToResponseMap (perform E op s) = []"
  by (cases op)
    (simp_all add: handleRequestUrl_clears approveHandshake_clears rejectHandshake_clears
      approveAction_clears rejectAction_clears fetchAppMetadata_clears isAppVerified_clears)

text \<open>
  C8 as stated fails: \<^const>\<open>approveAction\<close> records under whatever id the caller's action
  carries. Here the active message has the actions 0 and 1, the map is empty, and approving
  an action with id 7 leaves an entry for 7 in the map of a message that has no such action.
\<close>

theorem foreign_action_breaks_scope:
  "responsesOfActive (awaiting exampleRequestMessage) \<and>
   activeMessage (snd (approveAction exampleC ''ok'' (awaiting exampleRequestMessage)))
     = Some exampleRequestMessage \<and>
   actionToResponseMap (snd (approveAction exampleC ''ok'' (awaiting exampleRequestMessage)))
     = [(7, ReturnResult ''ok'')] \<and>
   \<not> responsesOfActive (snd (approveAction exampleC ''ok'' (awaiting exampleRequestMessage)))"
  by (simp add: responsesOfActive_def approveAction_def shouldRespondToClient_def effects
      examples)

text \<open>
  C8, amended. Whenever an operation changes the active message (to another message or to
  none), the response map is empty after that operation. And when the caller approves or
  rejects only actions of the message that is active, every operation of the controller
  (intake, the two queries, approve and reject of handshake and action) preserves that the
  response map holds entries only for actions of the active message.
\<close>

theorem responses_scoped_to_active_message:
  assumes "responsesOfActive s" and "actsOnActive op s"
  shows "responsesOfActive (perform E op s) \<and>
         (activeMessage (perform E op s) \<noteq> activeMessage s \<longrightarrow>
            actionToResponseMap (perform E op s) = [])"
  using assms perform_scoped [of s op E] perform_clears [of E op s] by blast

text \<open>
  C8 amended, on the example: approving action 0 of the active two-action message keeps
  the map within the message.
\<close>

theorem responses_scoped_to_active_message_witness:
  "responsesOfActive (awaiting exampleRequestMessage)
   \<and> actsOnActive (ApproveAction exampleA ''ok'') (awaiting exampleRequestMessage)
   \<and> responsesOfActive (perform exampleEnv (ApproveAction exampleA ''ok'')
        (awaiting exampleRequestMessage))
   \<and> actionToResponseMap (perform exampleEnv (ApproveAction exampleA ''ok'')
        (awaiting exampleRequestMessage)) = [(0, ReturnResult ''ok'')]"
proof -
  have inv: "responsesOfActive (awaiting exampleRequestMessage)"
    by (simp add: responsesOfActive_def examples)
  have act: "actsOnActive (ApproveAction exampleA ''ok'') (awaiting exampleRequestMessage)"
    by (simp add: examples)
  have rec: "actionToResponseMap (perform exampleEnv (ApproveAction exampleA ''ok'')
        (awaiting exampleRequestMessage)) = [(0, ReturnResult ''ok'')]"
    by (simp add: approveAction_def shouldRespondToClient_def effects examples)
  from responses_scoped_to_active_message [OF inv act, of exampleEnv] inv act rec
  show ?thesis by (simp only: simp_thms)
qed

text \<open>
  Along a well-directed run from the freshly mounted provider, the response map always
  belongs to the active message.
\<close>

lemma mounted_scoped: "responsesOfActive (mounted store)"
  by (simp add: responsesOfActive_def mounted_def)

lemma run_scoped:
  "responsesOfActive s \<Longrightarrow> wellDirected E ops s \<Longrightarrow> responsesOfActive (run E ops s)"
  by (induction ops arbitrary: s) (simp_all add: perform_scoped)

text \<open>The example states are reachable: intake of the example handshake installs its message.\<close>

lemma example_handshake_installed:
  "handleRequestUrl exampleEnv ''mwp://handshake'' (mounted []) =
     (Inr True, awaiting exampleHandshakeMessage)"
  by (simp add: handleRequestUrl_def exampleEnv_def effects examples)

end
